theory Spec2Isabelle
  imports Main "HOL-Library.Sublist"
begin

section \<open>The character model of genshin.py (models/genshin/character.py)\<close>

text \<open>
  A shallow embedding of \<^verbatim>\<open>src/genshin/models/genshin/character.py\<close>.

  Conventions.
  \<^item> A Python \<^verbatim>\<open>str\<close> is a \<open>string\<close>; one \<open>char\<close> stands for one character of the
    Python string. A Python \<^verbatim>\<open>int\<close> is an \<open>int\<close>.
  \<^item> An \<^verbatim>\<open>Optional[...]\<close> argument is an \<open>option\<close>; \<open>None\<close> is Python's \<^verbatim>\<open>None\<close>.
    Python's truth test (\<^verbatim>\<open>if id and ...\<close>, \<^verbatim>\<open>element or "Anemo"\<close>) is written out:
    \<^verbatim>\<open>None\<close>, \<^verbatim>\<open>0\<close> and \<^verbatim>\<open>""\<close> are false.
  \<^item> The module-level dictionary \<^verbatim>\<open>CHARACTER_NAMES\<close> and the warnings emitted through
    \<^verbatim>\<open>warnings.warn\<close> form the state, passed in and returned explicitly.
  \<^item> \<^verbatim>\<open>raise ValueError(msg)\<close> is the value \<open>Inl (ValueError msg)\<close>.
\<close>

subsection \<open>Data\<close>

text \<open>
  Modelled from the spec: the declaration of \<^verbatim>\<open>DBChar\<close> lives in \<^verbatim>\<open>constants.py\<close>, which is
  not part of the sources at hand. The record follows the spec's CanonicalEntity
  (\<^verbatim>\<open>id\<close>, \<^verbatim>\<open>iconKey\<close>, \<^verbatim>\<open>name\<close>, \<^verbatim>\<open>element\<close>, \<^verbatim>\<open>rarity\<close>, \<^verbatim>\<open>guessed\<close>) in the order of the
  positional call \<^verbatim>\<open>DBChar(id, icon_name, name, element, rarity, guessed=True)\<close> and with the
  attribute names the code reads (\<^verbatim>\<open>char.id\<close>, \<^verbatim>\<open>char.icon_name\<close>, \<^verbatim>\<open>char.name\<close>,
  \<^verbatim>\<open>char.element\<close>, \<^verbatim>\<open>char.rarity\<close>). The fields are prefixed with \<open>db_\<close> where the plain
  name is taken (\<open>id\<close>) or shared with the model class below.
\<close>

record DBChar =
  db_id :: int
  icon_name :: string
  db_name :: string
  db_element :: string
  db_rarity :: int
  guessed :: bool

text \<open>
  A Python \<^verbatim>\<open>dict\<close> keeps its keys in insertion order, and
  \<^verbatim>\<open>for char in CHARACTER_NAMES.values()\<close> returns the first match in that order, so the
  dictionary is an association list. The content of \<^verbatim>\<open>CHARACTER_NAMES\<close> (the built-in
  table of \<^verbatim>\<open>constants.py\<close>) is a parameter of every function here.
\<close>

type_synonym registry = "(int \<times> DBChar) list"

text \<open>\<^verbatim>\<open>d.get(k)\<close>; \<^verbatim>\<open>k in d\<close> is \<open>dict_get d k \<noteq> None\<close>, and \<^verbatim>\<open>d[k]\<close> on a present key
  is the value found.\<close>

definition dict_get :: "registry \<Rightarrow> int \<Rightarrow> DBChar option" where
  "dict_get d k = map_of d k"

text \<open>\<^verbatim>\<open>d.values()\<close>, in insertion order.\<close>

definition dict_values :: "registry \<Rightarrow> DBChar list" where
  "dict_values d = map snd d"

text \<open>
  \<^verbatim>\<open>d[k] = v\<close>: a present key keeps its place and takes the new value, a new key goes to
  the end.
\<close>

fun dict_set :: "int \<Rightarrow> DBChar \<Rightarrow> registry \<Rightarrow> registry" where
  "dict_set k v [] = [(k, v)]"
| "dict_set k v (kv # kvs) = (if fst kv = k then (k, v) # kvs else kv # dict_set k v kvs)"

record state =
  CHARACTER_NAMES :: registry
  warned :: "string list"

text \<open>\<^verbatim>\<open>warnings.warn(msg)\<close> under the default filters: the message is recorded and
  execution goes on.\<close>

definition warn :: "string \<Rightarrow> state \<Rightarrow> state" where
  "warn msg st = st\<lparr>warned := warned st @ [msg]\<rparr>"

datatype error = ValueError string

subsection \<open>Truth tests and string helpers\<close>

definition truthy_int :: "int option \<Rightarrow> bool" where
  "truthy_int x = (case x of None \<Rightarrow> False | Some i \<Rightarrow> i \<noteq> 0)"

definition truthy_str :: "string option \<Rightarrow> bool" where
  "truthy_str x = (case x of None \<Rightarrow> False | Some s \<Rightarrow> s \<noteq> [])"

text \<open>\<^verbatim>\<open>p in s\<close> on strings: \<open>p\<close> occurs in \<open>s\<close> as a contiguous substring.\<close>

fun contains :: "string \<Rightarrow> string \<Rightarrow> bool" where
  "contains p [] = (p = [])"
| "contains p (c # cs) = (prefix p (c # cs) \<or> contains p cs)"

text \<open>The decimal rendering of an integer in an f-string (\<^verbatim>\<open>f"{scale}"\<close>,
  \<^verbatim>\<open>f"{icon}"\<close> for an integer).\<close>

fun str_nat :: "nat \<Rightarrow> string" where
  "str_nat n =
     (if n < 10 then [''0123456789'' ! n]
      else str_nat (n div 10) @ [''0123456789'' ! (n mod 10)])"

declare str_nat.simps [simp del]

definition str_int :: "int \<Rightarrow> string" where
  "str_int i = (if i < 0 then ''-'' @ str_nat (nat (- i)) else str_nat (nat i))"

text \<open>\<^verbatim>\<open>f"{x}"\<close> for an optional value: \<^verbatim>\<open>None\<close> prints as \<^verbatim>\<open>None\<close>.\<close>

definition fmt_int :: "int option \<Rightarrow> string" where
  "fmt_int x = (case x of None \<Rightarrow> ''None'' | Some i \<Rightarrow> str_int i)"

definition fmt_str :: "string option \<Rightarrow> string" where
  "fmt_str x = (case x of None \<Rightarrow> ''None'' | Some s \<Rightarrow> s)"

subsection \<open>The icon pattern\<close>

text \<open>
  \<^verbatim>\<open>re.search(r"UI_AvatarIcon(?:_Side)?_(.*).png", icon)\<close>.

  The pattern is a literal, an optional literal, an underscore, a greedy group of
  characters other than newline, one more character other than newline (the dot before
  \<^verbatim>\<open>png\<close> is not escaped) and the literal \<^verbatim>\<open>png\<close>.

  \<open>group_png r\<close> matches \<^verbatim>\<open>(.*).png\<close> at the start of \<open>r\<close> and returns the group. The
  group is greedy: it takes the character \<open>c\<close> whenever the rest of the pattern still
  matches further right, and stops before \<open>c\<close> only if it does not.
\<close>

fun group_png :: "string \<Rightarrow> string option" where
  "group_png [] = None"
| "group_png (c # cs) =
     (if c = CHR 0x0A then None
      else case group_png cs of
             Some g \<Rightarrow> Some (c # g)
           | None \<Rightarrow> if prefix ''png'' cs then Some [] else None)"

text \<open>
  The whole pattern at the start of \<open>s\<close>. The optional \<^verbatim>\<open>(?:_Side)?\<close> is greedy as well:
  the matcher first tries with \<^verbatim>\<open>_Side\<close> and falls back to the match without it.
\<close>

definition match_here :: "string \<Rightarrow> string option" where
  "match_here s =
     (if prefix ''UI_AvatarIcon'' s then
        let r = drop 13 s in
        case (if prefix ''_Side_'' r then group_png (drop 6 r) else None) of
          Some g \<Rightarrow> Some g
        | None \<Rightarrow> if prefix ''_'' r then group_png (drop 1 r) else None
      else None)"

text \<open>\<^verbatim>\<open>re.search\<close>: the leftmost position at which the pattern matches; the result is
  group 1 of the match.\<close>

fun re_search :: "string \<Rightarrow> string option" where
  "re_search [] = match_here []"
| "re_search (c # cs) =
     (case match_here (c # cs) of Some g \<Rightarrow> Some g | None \<Rightarrow> re_search cs)"

subsection \<open>\<^verbatim>\<open>_parse_icon\<close> and \<^verbatim>\<open>_create_icon\<close>\<close>

definition ICON_BASE :: string where
  "ICON_BASE = ''https://upload-os-bbs.mihoyo.com/game_record/genshin/''"

text \<open>The argument of \<^verbatim>\<open>_parse_icon\<close> is a \<^verbatim>\<open>typing.Union[str, int]\<close>.\<close>

datatype str_or_int = IsStr string | IsInt int

definition parse_icon :: "state \<Rightarrow> str_or_int \<Rightarrow> error + string" where
  "parse_icon st icon =
     (case icon of
        IsInt i \<Rightarrow>
          (case dict_get (CHARACTER_NAMES st) i of
             None \<Rightarrow> Inl (ValueError (''Invalid character id '' @ str_int i))
           | Some char \<Rightarrow> Inr (icon_name char))
      | IsStr s \<Rightarrow>
          (case re_search s of
             Some g \<Rightarrow> Inr g
           | None \<Rightarrow> Inr s))"

definition create_icon :: "state \<Rightarrow> string \<Rightarrow> string \<Rightarrow> int \<Rightarrow> error + string" where
  "create_icon st icon specifier scale =
     (case parse_icon st (IsStr icon) of
        Inl e \<Rightarrow> Inl e
      | Inr icon_key \<Rightarrow>
          Inr (ICON_BASE @ specifier @ ''_'' @ icon_key
                 @ (if scale \<noteq> 0 then ''@'' @ str_int scale @ ''x'' else '''') @ ''.png''))"

subsection \<open>\<^verbatim>\<open>_get_db_char\<close>\<close>

text \<open>The two loops \<^verbatim>\<open>for char in CHARACTER_NAMES.values(): if ...: return char\<close>.\<close>

definition find_icon_name :: "registry \<Rightarrow> string \<Rightarrow> DBChar option" where
  "find_icon_name d k = find (\<lambda>char. icon_name char = k) (dict_values d)"

definition find_name :: "registry \<Rightarrow> string \<Rightarrow> DBChar option" where
  "find_name d n = find (\<lambda>char. db_name char = n) (dict_values d)"

text \<open>
  The arguments are, in the order of the signature, \<^verbatim>\<open>id\<close>, \<^verbatim>\<open>name\<close>, \<^verbatim>\<open>icon\<close>,
  \<^verbatim>\<open>element\<close>, \<^verbatim>\<open>rarity\<close>. Each branch is one \<^verbatim>\<open>if\<close> of the source, in its order;
  the local \<^verbatim>\<open>icon_name\<close> is \<open>icon_key\<close> here, the record field having taken the name.
\<close>

definition get_db_char ::
  "state \<Rightarrow> int option \<Rightarrow> string option \<Rightarrow> string option \<Rightarrow> string option \<Rightarrow> int option
     \<Rightarrow> (error + DBChar) \<times> state" where
  "get_db_char st ident name icon element rarity =
     (case (if truthy_int ident then dict_get (CHARACTER_NAMES st) (the ident) else None) of
        Some char \<Rightarrow> (Inr char, st)
      | None \<Rightarrow>
          if truthy_str icon \<and> contains ''genshin'' (the icon) then
            (case parse_icon st (IsStr (the icon)) of
               Inl e \<Rightarrow> (Inl e, st)
             | Inr icon_key \<Rightarrow>
                 (case find_icon_name (CHARACTER_NAMES st) icon_key of
                    Some char \<Rightarrow> (Inr char, st)
                  | None \<Rightarrow>
                      if truthy_int ident \<and> truthy_str name \<and> truthy_str icon
                           \<and> truthy_str element \<and> truthy_int rarity then
                        let char = \<lparr>db_id = the ident, icon_name = icon_key,
                                    db_name = the name, db_element = the element,
                                    db_rarity = the rarity, guessed = True\<rparr>
                        in (Inr char,
                            st\<lparr>CHARACTER_NAMES :=
                                 dict_set (db_id char) char (CHARACTER_NAMES st)\<rparr>)
                      else
                        (Inr \<lparr>db_id = 0, icon_name = icon_key, db_name = icon_key,
                              db_element = (if truthy_str element then the element
                                            else ''Anemo''),
                              db_rarity = (if truthy_int rarity then the rarity else 5),
                              guessed = True\<rparr>,
                         warn (''Completing data for an unknown character: id=''
                                 @ fmt_int ident @ '', icon='' @ icon_key
                                 @ '', name='' @ fmt_str name) st)))
          else if truthy_str name then
            (case find_name (CHARACTER_NAMES st) (the name) of
               Some char \<Rightarrow> (Inr char, st)
             | None \<Rightarrow>
                 (Inr \<lparr>db_id = 0, icon_name = the name, db_name = the name,
                       db_element = (if truthy_str element then the element
                                     else ''Anemo''),
                       db_rarity = (if truthy_int rarity then the rarity else 5),
                       guessed = True\<rparr>,
                  warn (''Completing data for a partial character: id='' @ fmt_int ident
                          @ '', name='' @ the name) st))
          else (Inl (ValueError ''Character data incomplete''), st))"

subsection \<open>\<^verbatim>\<open>BaseCharacter\<close>\<close>

text \<open>
  The dictionary \<^verbatim>\<open>values\<close> handed to the root validator, which runs before field
  validation (\<^verbatim>\<open>pre=True\<close>): the five keys the validator reads, each present or not
  (\<^verbatim>\<open>values.get(x)\<close> is \<^verbatim>\<open>None\<close> for a missing key), and the key of the remaining declared
  field \<^verbatim>\<open>collab\<close>, which the validator writes in two of its branches and otherwise
  leaves as the caller supplied it.
\<close>

record raw_values =
  v_id :: "int option"
  v_name :: "string option"
  v_icon :: "string option"
  v_element :: "string option"
  v_rarity :: "int option"
  v_collab :: "bool option"

text \<open>
  The fields of the model class, filled from the dictionary the validator returns. The
  validator has no \<^verbatim>\<open>else\<close> after its two \<^verbatim>\<open>collab\<close> branches: there \<^verbatim>\<open>collab\<close> is the
  caller's value when the key is present, and the class default \<^verbatim>\<open>False\<close> when it is not.
\<close>

record BaseCharacter =
  bc_id :: int
  bc_name :: string
  bc_element :: string
  bc_rarity :: int
  bc_icon :: string
  bc_collab :: bool

text \<open>
  \<^verbatim>\<open>__autocomplete\<close>. The call is \<^verbatim>\<open>_get_db_char(id, icon, name, element, rarity)\<close>,
  positional, against the signature \<^verbatim>\<open>(id, name, icon, element, rarity)\<close>: the model
  passes the arguments in the positions the source does.
\<close>

definition autocomplete :: "state \<Rightarrow> raw_values \<Rightarrow> (error + BaseCharacter) \<times> state" where
  "autocomplete st values =
     (case get_db_char st (v_id values) (v_icon values) (v_name values)
             (v_element values) (v_rarity values) of
        (Inl e, st') \<Rightarrow> (Inl e, st')
      | (Inr char, st') \<Rightarrow>
          (case create_icon st' (icon_name char) ''character_icon/UI_AvatarIcon'' 0 of
             Inl e \<Rightarrow> (Inl e, st')
           | Inr icon \<Rightarrow>
               let icon' =
                     (if truthy_str (v_icon values) then
                        (if \<not> contains ''genshin'' (the (v_icon values)) \<and> db_id char \<noteq> 0
                         then icon else the (v_icon values))
                      else icon)
               in if db_rarity char > 100 then
                    (Inr \<lparr>bc_id = db_id char, bc_name = db_name char,
                          bc_element = db_element char, bc_rarity = db_rarity char - 100,
                          bc_icon = icon', bc_collab = True\<rparr>, st')
                  else if db_id char = 10000062 then
                    (Inr \<lparr>bc_id = db_id char, bc_name = db_name char,
                          bc_element = db_element char, bc_rarity = db_rarity char,
                          bc_icon = icon', bc_collab = True\<rparr>, st')
                  else
                    (Inr \<lparr>bc_id = db_id char, bc_name = db_name char,
                          bc_element = db_element char, bc_rarity = db_rarity char,
                          bc_icon = icon',
                          bc_collab = (case v_collab values of
                                         None \<Rightarrow> False
                                       | Some b \<Rightarrow> b)\<rparr>, st')))"

text \<open>The properties \<^verbatim>\<open>image\<close> (here \<open>image_url\<close>), \<^verbatim>\<open>side_icon\<close> and
  \<^verbatim>\<open>traveler_name\<close>.\<close>

definition image_url :: "state \<Rightarrow> BaseCharacter \<Rightarrow> error + string" where
  "image_url st self = create_icon st (bc_icon self) ''character_image/UI_AvatarIcon'' 2"

definition side_icon :: "state \<Rightarrow> BaseCharacter \<Rightarrow> error + string" where
  "side_icon st self =
     create_icon st (bc_icon self) ''character_side_icon/UI_AvatarIcon_Side'' 0"

definition traveler_name :: "BaseCharacter \<Rightarrow> string" where
  "traveler_name self =
     (if bc_id self = 10000005 then ''Aether''
      else if bc_id self = 10000007 then ''Lumine''
      else '''')"

subsection \<open>Sample data\<close>

text \<open>An empty registry, and a registry holding one built-in record.\<close>

definition st_empty :: state where
  "st_empty = \<lparr>CHARACTER_NAMES = [], warned = []\<rparr>"

definition ayaka :: DBChar where
  "ayaka = \<lparr>db_id = 10000002, icon_name = ''Ayaka'', db_name = ''Kamisato Ayaka'',
             db_element = ''Cryo'', db_rarity = 5, guessed = False\<rparr>"

definition st_ayaka :: state where
  "st_ayaka = \<lparr>CHARACTER_NAMES = [(10000002, ayaka)], warned = []\<rparr>"

text \<open>A registry holding the collaboration character, stored with rarity 105.\<close>

definition aloy :: DBChar where
  "aloy = \<lparr>db_id = 10000062, icon_name = ''Aloy'', db_name = ''Aloy'',
            db_element = ''Cryo'', db_rarity = 105, guessed = False\<rparr>"

definition st_aloy :: state where
  "st_aloy = \<lparr>CHARACTER_NAMES = [(10000062, aloy)], warned = []\<rparr>"

text \<open>The validator's input with only an \<^verbatim>\<open>id\<close>, and with only a \<^verbatim>\<open>name\<close>.\<close>

definition only_id :: "int \<Rightarrow> raw_values" where
  "only_id i = \<lparr>v_id = Some i, v_name = None, v_icon = None, v_element = None,
               v_rarity = None, v_collab = None\<rparr>"

definition only_name :: "string \<Rightarrow> raw_values" where
  "only_name n = \<lparr>v_id = None, v_name = Some n, v_icon = None, v_element = None,
                 v_rarity = None, v_collab = None\<rparr>"

text \<open>A full icon address, which contains the marker \<^verbatim>\<open>genshin\<close>, and the record the
  resolver synthesizes for it from complete data.\<close>

definition ayaka_url :: string where
  "ayaka_url = ''https://upload-os-bbs.mihoyo.com/game_record/genshin/character_icon/UI_AvatarIcon_Ayaka.png''"

definition ayaka_guessed :: DBChar where
  "ayaka_guessed = \<lparr>db_id = 10000002, icon_name = ''Ayaka'', db_name = ''Kamisato Ayaka'',
                     db_element = ''Cryo'', db_rarity = 5, guessed = True\<rparr>"

text \<open>The registry after the guessed record has been added, a registry that holds a record
  under the key 0, a transient guess, and a validator input of empty strings.\<close>

definition kaeya_guess :: DBChar where
  "kaeya_guess = \<lparr>db_id = 0, icon_name = ''Kaeya'', db_name = ''Kaeya'', db_element = ''Anemo'',
               db_rarity = 5, guessed = True\<rparr>"

definition st_both :: state where
  "st_both = \<lparr>CHARACTER_NAMES = [(10000062, aloy), (10000002, ayaka_guessed)], warned = []\<rparr>"

definition st_zero :: state where
  "st_zero = \<lparr>CHARACTER_NAMES = [(0, \<lparr>db_id = 0, icon_name = ''Unknown'', db_name = ''Unknown'',
       db_element = ''Geo'', db_rarity = 4, guessed = False\<rparr>)], warned = []\<rparr>"

definition empty_strings :: raw_values where
  "empty_strings = \<lparr>v_id = None, v_name = Some '''', v_icon = Some '''', v_element = None,
                     v_rarity = None, v_collab = None\<rparr>"

text \<open>An icon string in which the pattern is nested, and a full image address that carries
  a scale suffix, as the \<^verbatim>\<open>image\<close> property produces it, with a validator input and the
  model built from it.\<close>

definition nested_icon :: string where
  "nested_icon = ''UI_AvatarIcon_UI_AvatarIcon_A.png.png''"

definition scaled_url :: string where
  "scaled_url = ''https://upload-os-bbs.mihoyo.com/game_record/genshin/character_image/UI_AvatarIcon_Ayaka@2x.png''"

definition scaled_char :: BaseCharacter where
  "scaled_char = \<lparr>bc_id = 10000002, bc_name = ''Kamisato Ayaka'', bc_element = ''Cryo'',
     bc_rarity = 5,
     bc_icon = scaled_url,
     bc_collab = False\<rparr>"

definition scaled_values :: raw_values where
  "scaled_values = \<lparr>v_id = Some 10000002, v_name = None,
     v_icon = Some scaled_url,
     v_element = None, v_rarity = None, v_collab = None\<rparr>"

text \<open>A validator input that supplies \<^verbatim>\<open>collab=True\<close> with the id of a registered
  five-star character, and the model built from it.\<close>

definition collab_values :: raw_values where
  "collab_values = \<lparr>v_id = Some 10000002, v_name = None, v_icon = None, v_element = None,
                     v_rarity = None, v_collab = Some True\<rparr>"

definition collab_char :: BaseCharacter where
  "collab_char = \<lparr>bc_id = 10000002, bc_name = ''Kamisato Ayaka'', bc_element = ''Cryo'',
     bc_rarity = 5,
     bc_icon = ''https://upload-os-bbs.mihoyo.com/game_record/genshin/character_icon/UI_AvatarIcon_Ayaka.png'',
     bc_collab = True\<rparr>"

subsection \<open>Auxiliary notions for the proofs\<close>

text \<open>The first \<^verbatim>\<open>if\<close> of \<^verbatim>\<open>_get_db_char\<close> does not return: the id is \<^verbatim>\<open>None\<close>, zero,
  or not a key of the registry.\<close>

definition id_miss :: "state \<Rightarrow> int option \<Rightarrow> bool" where
  "id_miss st ident =
     (case ident of
        None \<Rightarrow> True
      | Some i \<Rightarrow> i = 0 \<or> dict_get (CHARACTER_NAMES st) i = None)"

text \<open>
  The registry as a dictionary keyed by id: the keys are distinct (as in any \<^verbatim>\<open>dict\<close>) and
  every record is stored under its own id.
\<close>

definition registry_ok :: "registry \<Rightarrow> bool" where
  "registry_ok d \<longleftrightarrow> distinct (map fst d) \<and> (\<forall>(k, char) \<in> set d. db_id char = k)"

text \<open>
  The registry changes only through calls of \<^verbatim>\<open>_get_db_char\<close>, made directly or by the
  validator when a \<^verbatim>\<open>BaseCharacter\<close> is constructed. A reachable state is the state after
  a list of such calls; a call that raises leaves its state behind like any other.
\<close>

datatype call =
  Resolve "int option" "string option" "string option" "string option" "int option"
| Construct raw_values

fun run_call :: "state \<Rightarrow> call \<Rightarrow> state" where
  "run_call st (Resolve ident name icon element rarity)
     = snd (get_db_char st ident name icon element rarity)"
| "run_call st (Construct vals) = snd (autocomplete st vals)"

definition run :: "state \<Rightarrow> call list \<Rightarrow> state" where
  "run st calls = foldl run_call st calls"

text \<open>The number of positions of \<open>s\<close> at which \<open>p\<close> occurs (overlapping occurrences
  counted).\<close>

fun occurrences :: "string \<Rightarrow> string \<Rightarrow> nat" where
  "occurrences p [] = (if p = [] then 1 else 0)"
| "occurrences p (c # cs) = (if prefix p (c # cs) then 1 else 0) + occurrences p cs"

section \<open>Properties\<close>

subsection \<open>Dictionary and formatting facts\<close>

lemma dict_get_None_iff: "dict_get d k = None \<longleftrightarrow> k \<notin> fst ` set d"
  by (simp add: dict_get_def map_of_eq_None_iff)

lemma dict_get_member: "distinct (map fst d) \<Longrightarrow> (k, v) \<in> set d \<Longrightarrow> dict_get d k = Some v"
  by (simp add: dict_get_def)

lemma dict_set_fresh: "k \<notin> fst ` set d \<Longrightarrow> dict_set k v d = d @ [(k, v)]"
  by (induction d) auto

lemma str_int_7: "str_int 7 = ''7''"
  by (simp add: str_int_def str_nat.simps)

subsection \<open>The branches of \<^verbatim>\<open>_get_db_char\<close>\<close>

lemma id_miss_alt:
  "id_miss st ident \<longleftrightarrow>
     (\<forall>i. ident = Some i \<longrightarrow> i = 0 \<or> dict_get (CHARACTER_NAMES st) i = None)"
  by (cases ident) (simp_all add: id_miss_def)

lemma parse_icon_str_total: "\<exists>k. parse_icon st (IsStr s) = Inr k"
  by (simp add: parse_icon_def split: option.split)

lemma id_miss_lookup:
  "id_miss st ident \<Longrightarrow>
     (if truthy_int ident then dict_get (CHARACTER_NAMES st) (the ident) else None) = None"
  by (cases ident) (auto simp: id_miss_alt truthy_int_def)

lemma get_db_char_id_hit:
  assumes "i \<noteq> 0" and "dict_get (CHARACTER_NAMES st) i = Some char"
  shows "get_db_char st (Some i) name icon element rarity = (Inr char, st)"
  using assms by (simp add: get_db_char_def truthy_int_def)

lemma get_db_char_icon_found:
  assumes "id_miss st ident" and "contains ''genshin'' s"
    and "parse_icon st (IsStr s) = Inr k"
    and "find_icon_name (CHARACTER_NAMES st) k = Some char"
  shows "get_db_char st ident name (Some s) element rarity = (Inr char, st)"
proof -
  have t: "truthy_str (Some s)"
    using assms(2) by (auto simp: truthy_str_def)
  show ?thesis
    by (simp add: get_db_char_def id_miss_lookup [OF assms(1)] t assms(2,3,4))
qed

lemma get_db_char_icon_insert:
  assumes "id_miss st (Some i)" and "contains ''genshin'' s"
    and "parse_icon st (IsStr s) = Inr k"
    and "find_icon_name (CHARACTER_NAMES st) k = None"
    and "i \<noteq> 0" and "n \<noteq> []" and "e \<noteq> []" and "r \<noteq> 0"
  shows "get_db_char st (Some i) (Some n) (Some s) (Some e) (Some r)
           = (Inr \<lparr>db_id = i, icon_name = k, db_name = n, db_element = e,
                    db_rarity = r, guessed = True\<rparr>,
              st\<lparr>CHARACTER_NAMES :=
                   dict_set i \<lparr>db_id = i, icon_name = k, db_name = n, db_element = e,
                               db_rarity = r, guessed = True\<rparr> (CHARACTER_NAMES st)\<rparr>)"
proof -
  have t: "truthy_str (Some s)" "truthy_str (Some n)" "truthy_str (Some e)"
    "truthy_int (Some i)" "truthy_int (Some r)"
    using assms(2,5-8) by (auto simp: truthy_str_def truthy_int_def)
  have m: "dict_get (CHARACTER_NAMES st) i = None"
    using assms(1,5) by (simp add: id_miss_alt)
  show ?thesis
    by (simp add: get_db_char_def m t assms(2,3,4) Let_def)
qed

lemma get_db_char_icon_guess:
  assumes "id_miss st ident" and "contains ''genshin'' s"
    and "parse_icon st (IsStr s) = Inr k"
    and "find_icon_name (CHARACTER_NAMES st) k = None"
    and "\<not> (truthy_int ident \<and> truthy_str name \<and> truthy_str element \<and> truthy_int rarity)"
  shows "get_db_char st ident name (Some s) element rarity
           = (Inr \<lparr>db_id = 0, icon_name = k, db_name = k,
                    db_element = (if truthy_str element then the element else ''Anemo''),
                    db_rarity = (if truthy_int rarity then the rarity else 5),
                    guessed = True\<rparr>,
              warn (''Completing data for an unknown character: id='' @ fmt_int ident
                      @ '', icon='' @ k @ '', name='' @ fmt_str name) st)"
proof -
  have t: "truthy_str (Some s)"
    using assms(2) by (auto simp: truthy_str_def)
  have c: "(truthy_int ident \<and> truthy_str name \<and> truthy_str element \<and> truthy_int rarity)
             = False"
    using assms(5) by blast
  show ?thesis
    by (simp add: get_db_char_def id_miss_lookup [OF assms(1)] c t assms(2,3,4))
qed

lemma get_db_char_name_found:
  assumes "id_miss st ident" and "\<forall>s. icon = Some s \<longrightarrow> \<not> contains ''genshin'' s"
    and "n \<noteq> []" and "find_name (CHARACTER_NAMES st) n = Some char"
  shows "get_db_char st ident (Some n) icon element rarity = (Inr char, st)"
proof -
  have c: "(truthy_str icon \<and> contains ''genshin'' (the icon)) = False"
    using assms(2) by (cases icon) (auto simp: truthy_str_def)
  have t: "truthy_str (Some n)"
    using assms(3) by (simp add: truthy_str_def)
  show ?thesis
    by (simp add: get_db_char_def id_miss_lookup [OF assms(1)] c t assms(4))
qed

lemma get_db_char_name_guess:
  assumes "id_miss st ident" and "\<forall>s. icon = Some s \<longrightarrow> \<not> contains ''genshin'' s"
    and "n \<noteq> []" and "find_name (CHARACTER_NAMES st) n = None"
  shows "get_db_char st ident (Some n) icon element rarity
           = (Inr \<lparr>db_id = 0, icon_name = n, db_name = n,
                    db_element = (if truthy_str element then the element else ''Anemo''),
                    db_rarity = (if truthy_int rarity then the rarity else 5),
                    guessed = True\<rparr>,
              warn (''Completing data for a partial character: id='' @ fmt_int ident
                      @ '', name='' @ n) st)"
proof -
  have c: "(truthy_str icon \<and> contains ''genshin'' (the icon)) = False"
    using assms(2) by (cases icon) (auto simp: truthy_str_def)
  have t: "truthy_str (Some n)"
    using assms(3) by (simp add: truthy_str_def)
  show ?thesis
    by (simp add: get_db_char_def id_miss_lookup [OF assms(1)] c t assms(4))
qed

lemma get_db_char_incomplete:
  assumes "id_miss st ident" and "\<forall>s. icon = Some s \<longrightarrow> \<not> contains ''genshin'' s"
    and "name = None \<or> name = Some ''''"
  shows "get_db_char st ident name icon element rarity
           = (Inl (ValueError ''Character data incomplete''), st)"
proof -
  have c: "(truthy_str icon \<and> contains ''genshin'' (the icon)) = False"
    using assms(2) by (cases icon) (auto simp: truthy_str_def)
  have t: "truthy_str name = False"
    using assms(3) by (auto simp: truthy_str_def)
  show ?thesis
    by (simp add: get_db_char_def id_miss_lookup [OF assms(1)] c t)
qed

text \<open>Every call takes exactly one of these ways.\<close>

lemma get_db_char_cases [case_names id_hit icon_found icon_insert icon_guess name_found name_guess incomplete]:
  obtains
    (id_hit) i char where "ident = Some i" "i \<noteq> 0" "dict_get (CHARACTER_NAMES st) i = Some char"
  | (icon_found) s k char where "id_miss st ident" "icon = Some s" "contains ''genshin'' s"
      "parse_icon st (IsStr s) = Inr k" "find_icon_name (CHARACTER_NAMES st) k = Some char"
  | (icon_insert) s k i n e r where "id_miss st ident" "icon = Some s" "contains ''genshin'' s"
      "parse_icon st (IsStr s) = Inr k" "find_icon_name (CHARACTER_NAMES st) k = None"
      "ident = Some i" "i \<noteq> 0" "name = Some n" "n \<noteq> []" "element = Some e" "e \<noteq> []"
      "rarity = Some r" "r \<noteq> 0"
  | (icon_guess) s k where "id_miss st ident" "icon = Some s" "contains ''genshin'' s"
      "parse_icon st (IsStr s) = Inr k" "find_icon_name (CHARACTER_NAMES st) k = None"
      "\<not> (truthy_int ident \<and> truthy_str name \<and> truthy_str element \<and> truthy_int rarity)"
  | (name_found) n char where "id_miss st ident"
      "\<forall>s. icon = Some s \<longrightarrow> \<not> contains ''genshin'' s" "name = Some n" "n \<noteq> []"
      "find_name (CHARACTER_NAMES st) n = Some char"
  | (name_guess) n where "id_miss st ident"
      "\<forall>s. icon = Some s \<longrightarrow> \<not> contains ''genshin'' s" "name = Some n" "n \<noteq> []"
      "find_name (CHARACTER_NAMES st) n = None"
  | (incomplete) "id_miss st ident"
      "\<forall>s. icon = Some s \<longrightarrow> \<not> contains ''genshin'' s" "name = None \<or> name = Some ''''"
proof (cases "id_miss st ident")
  case False
  then show ?thesis
    using id_hit by (auto simp: id_miss_alt)
next
  case miss: True
  show ?thesis
  proof (cases "\<exists>s. icon = Some s \<and> contains ''genshin'' s")
    case True
    then obtain s where s: "icon = Some s" "contains ''genshin'' s"
      by blast
    obtain k where k: "parse_icon st (IsStr s) = Inr k"
      using parse_icon_str_total by blast
    show ?thesis
    proof (cases "find_icon_name (CHARACTER_NAMES st) k")
      case (Some char)
      then show ?thesis using icon_found miss s k by blast
    next
      case None
      show ?thesis
      proof (cases "truthy_int ident \<and> truthy_str name \<and> truthy_str element \<and> truthy_int rarity")
        case False
        then show ?thesis using icon_guess miss s k None by blast
      next
        case True
        then obtain i n e r where "ident = Some i" "i \<noteq> 0" "name = Some n" "n \<noteq> []"
          "element = Some e" "e \<noteq> []" "rarity = Some r" "r \<noteq> 0"
          by (auto simp: truthy_int_def truthy_str_def split: option.splits)
        then show ?thesis using icon_insert miss s k None by blast
      qed
    qed
  next
    case noicon: False
    show ?thesis
    proof (cases "name = None \<or> name = Some ''''")
      case True
      then show ?thesis using incomplete miss noicon by blast
    next
      case False
      then obtain n where n: "name = Some n" "n \<noteq> []"
        by (cases name) auto
      show ?thesis
      proof (cases "find_name (CHARACTER_NAMES st) n")
        case None
        then show ?thesis using name_guess miss noicon n by blast
      next
        case (Some char)
        then show ?thesis using name_found miss noicon n by blast
      qed
    qed
  qed
qed

lemma id_miss_iff:
  "id_miss st ident \<longleftrightarrow>
     (\<forall>i. ident = Some i \<longrightarrow> i = 0 \<or> i \<notin> fst ` set (CHARACTER_NAMES st))"
  by (simp add: id_miss_alt dict_get_None_iff)

lemma create_icon_total: "\<exists>u. create_icon st s sp sc = Inr u"
  using parse_icon_str_total [of st s] by (auto simp: create_icon_def)

lemma get_aloy:
  "get_db_char st_aloy (Some 10000062) None None None None = (Inr aloy, st_aloy)"
  by (simp add: get_db_char_def st_aloy_def truthy_int_def dict_get_def)

lemma get_ayaka:
  "get_db_char st_ayaka (Some 10000002) None None None None = (Inr ayaka, st_ayaka)"
  by (simp add: get_db_char_def st_ayaka_def truthy_int_def dict_get_def)

lemma find_icon_name_None_iff:
  "find_icon_name d k = None \<longleftrightarrow> (\<forall>char \<in> set (dict_values d). icon_name char \<noteq> k)"
  by (auto simp: find_icon_name_def find_None_iff)

lemma find_name_None_iff:
  "find_name d n = None \<longleftrightarrow> (\<forall>char \<in> set (dict_values d). db_name char \<noteq> n)"
  by (auto simp: find_name_def find_None_iff)

lemma ayaka_url_marker: "contains ''genshin'' ayaka_url"
  by (simp add: ayaka_url_def)

lemma ayaka_url_key: "parse_icon st (IsStr ayaka_url) = Inr ''Ayaka''"
  by (simp add: parse_icon_def ayaka_url_def match_here_def)

lemma id_miss_None: "id_miss st None"
  by (simp add: id_miss_alt)

subsection \<open>Looking an icon key up by id\<close>

text \<open>
  Claim C9. For every integer id, \<^verbatim>\<open>_parse_icon\<close> applied to the integer returns the
  \<^verbatim>\<open>icon_name\<close> of the registry record stored under that id when there is one, and raises
  \<^verbatim>\<open>ValueError\<close> (the spec's UnknownIdError) exactly when the registry has no record
  for the id. The registry is a dictionary, so its keys are distinct.
\<close>

theorem parse_icon_by_id:
  assumes "distinct (map fst (CHARACTER_NAMES st))"
  shows "((i, char) \<in> set (CHARACTER_NAMES st) \<longrightarrow>
            parse_icon st (IsInt i) = Inr (icon_name char))
    \<and> (i \<notin> fst ` set (CHARACTER_NAMES st) \<longrightarrow>
         parse_icon st (IsInt i) = Inl (ValueError (''Invalid character id '' @ str_int i)))
    \<and> ((\<exists>e. parse_icon st (IsInt i) = Inl e) \<longleftrightarrow> i \<notin> fst ` set (CHARACTER_NAMES st))"
proof (cases "dict_get (CHARACTER_NAMES st) i")
  case None
  then have absent: "i \<notin> fst ` set (CHARACTER_NAMES st)"
    by (simp add: dict_get_None_iff)
  then have "(i, char) \<notin> set (CHARACTER_NAMES st)"
    by force
  with absent None show ?thesis
    by (simp add: parse_icon_def)
next
  case (Some c)
  then have mem: "i \<in> fst ` set (CHARACTER_NAMES st)"
    using dict_get_None_iff [of "CHARACTER_NAMES st" i] by simp
  have "(i, char) \<in> set (CHARACTER_NAMES st) \<Longrightarrow> c = char"
    using dict_get_member [OF assms] Some by fastforce
  with Some mem show ?thesis
    by (auto simp: parse_icon_def)
qed

theorem parse_icon_by_id_witness:
  "distinct (map fst (CHARACTER_NAMES st_ayaka))
   \<and> (10000002, ayaka) \<in> set (CHARACTER_NAMES st_ayaka)
   \<and> parse_icon st_ayaka (IsInt 10000002) = Inr ''Ayaka''
   \<and> 7 \<notin> fst ` set (CHARACTER_NAMES st_ayaka)
   \<and> parse_icon st_ayaka (IsInt 7) = Inl (ValueError ''Invalid character id 7'')"
proof -
  have d: "distinct (map fst (CHARACTER_NAMES st_ayaka))"
    by (simp add: st_ayaka_def)
  have m: "(10000002, ayaka) \<in> set (CHARACTER_NAMES st_ayaka)"
    by (simp add: st_ayaka_def)
  have n: "7 \<notin> fst ` set (CHARACTER_NAMES st_ayaka)"
    by (simp add: st_ayaka_def)
  from parse_icon_by_id [OF d, of 10000002 ayaka] m
  have "parse_icon st_ayaka (IsInt 10000002) = Inr ''Ayaka''"
    by (simp add: ayaka_def)
  moreover from parse_icon_by_id [OF d, of 7] n
  have "parse_icon st_ayaka (IsInt 7) = Inl (ValueError ''Invalid character id 7'')"
    by (simp add: str_int_7)
  ultimately show ?thesis using d m n by simp
qed

subsection \<open>When resolution fails\<close>

text \<open>
  Claim C4, as amended. \<^verbatim>\<open>_get_db_char\<close> raises if and only if the input has no non-zero
  id that is a key of the registry, no icon containing the marker \<^verbatim>\<open>genshin\<close>, and no
  non-empty name; the error is then \<^verbatim>\<open>ValueError("Character data incomplete")\<close> and the
  state is untouched. In every other case it returns a record.
\<close>

theorem get_db_char_fails_iff:
  "((\<exists>e. fst (get_db_char st ident name icon element rarity) = Inl e)
     \<longleftrightarrow> (\<forall>i. ident = Some i \<longrightarrow> i = 0 \<or> i \<notin> fst ` set (CHARACTER_NAMES st))
        \<and> (\<forall>s. icon = Some s \<longrightarrow> \<not> contains ''genshin'' s)
        \<and> (name = None \<or> name = Some ''''))
   \<and> (\<forall>e. fst (get_db_char st ident name icon element rarity) = Inl e \<longrightarrow>
          get_db_char st ident name icon element rarity
            = (Inl (ValueError ''Character data incomplete''), st))"
proof (cases rule: get_db_char_cases
    [where st = st and ident = ident and name = name and icon = icon
       and element = element and rarity = rarity])
  case (id_hit i char)
  then have "\<not> id_miss st ident"
    by (simp add: id_miss_alt)
  with get_db_char_id_hit [OF id_hit(2,3)] id_hit(1) show ?thesis
    by (simp add: id_miss_iff)
next
  case (icon_found s k char)
  with get_db_char_icon_found [OF icon_found(1,3,4,5)] show ?thesis
    by simp
next
  case (icon_insert s k i n e r)
  with get_db_char_icon_insert [of st i s k n e r] show ?thesis
    by simp
next
  case (icon_guess s k)
  with get_db_char_icon_guess [OF icon_guess(1,3,4,5,6)] show ?thesis
    by simp
next
  case (name_found n char)
  with get_db_char_name_found [OF name_found(1,2,4,5)] show ?thesis
    by simp
next
  case (name_guess n)
  with get_db_char_name_guess [OF name_guess(1,2,4,5)] show ?thesis
    by simp
next
  case incomplete
  with get_db_char_incomplete [OF incomplete] show ?thesis
    by (simp add: id_miss_iff)
qed

theorem get_db_char_fails_iff_witness:
  "5 \<notin> fst ` set (CHARACTER_NAMES st_ayaka)
   \<and> get_db_char st_ayaka (Some 5) None None None None
        = (Inl (ValueError ''Character data incomplete''), st_ayaka)
   \<and> \<not> (Some ''Kamisato Ayaka'' = None \<or> Some ''Kamisato Ayaka'' = Some '''')
   \<and> (\<forall>e. fst (get_db_char st_ayaka None (Some ''Kamisato Ayaka'') None None None) \<noteq> Inl e)"
proof -
  have a: "\<forall>i. Some (5::int) = Some i \<longrightarrow> i = 0 \<or> i \<notin> fst ` set (CHARACTER_NAMES st_ayaka)"
    by (simp add: st_ayaka_def)
  have b: "\<not> (Some ''Kamisato Ayaka'' = None \<or> Some ''Kamisato Ayaka'' = Some '''')"
    by simp
  from get_db_char_fails_iff [of st_ayaka "Some 5" None None None None] a
  have "get_db_char st_ayaka (Some 5) None None None None
        = (Inl (ValueError ''Character data incomplete''), st_ayaka)"
    by auto
  moreover
  from get_db_char_fails_iff [of st_ayaka None "Some ''Kamisato Ayaka''" None None None] b
  have "\<forall>e. fst (get_db_char st_ayaka None (Some ''Kamisato Ayaka'') None None None) \<noteq> Inl e"
    by blast
  moreover have "5 \<notin> fst ` set (CHARACTER_NAMES st_ayaka)"
    by (simp add: st_ayaka_def)
  ultimately show ?thesis using b by simp
qed

text \<open>
  The claim as first stated fails: an input that does contain an id, one that is not a
  key of the registry, still raises.
\<close>

theorem id_alone_fails_counterexample:
  "Some (5::int) \<noteq> None
   \<and> get_db_char st_empty (Some 5) None None None None
       = (Inl (ValueError ''Character data incomplete''), st_empty)"
  by (simp add: get_db_char_def st_empty_def truthy_int_def truthy_str_def dict_get_def)

subsection \<open>Construction of a \<^verbatim>\<open>BaseCharacter\<close>\<close>

text \<open>
  Claim C1 says that the validator hands the caller's \<^verbatim>\<open>name\<close> to the resolver as the
  name, so that an input holding only the name of a registered character yields that
  character. The validator passes \<^verbatim>\<open>icon\<close> in the position of \<^verbatim>\<open>name\<close> and \<^verbatim>\<open>name\<close> in the
  position of \<^verbatim>\<open>icon\<close>: with the registry holding Kamisato Ayaka and the input holding
  only that name, construction raises, while the resolver called with the name in its
  own position returns the record.
\<close>

theorem autocomplete_name_only_fails:
  "autocomplete st_ayaka (only_name ''Kamisato Ayaka'')
     = (Inl (ValueError ''Character data incomplete''), st_ayaka)
   \<and> get_db_char st_ayaka None (Some ''Kamisato Ayaka'') None None None
       = (Inr ayaka, st_ayaka)
   \<and> db_name ayaka = ''Kamisato Ayaka''"
  by (simp add: autocomplete_def only_name_def get_db_char_def st_ayaka_def ayaka_def
      truthy_int_def truthy_str_def find_name_def dict_values_def)

text \<open>
  Claim C6, as amended. Let \<open>char\<close> be the record the validator's resolver call returns.
  Construction succeeds and adopts its id. If \<open>char\<close>'s rarity exceeds 100, the final
  rarity is that value minus 100 and \<^verbatim>\<open>collab\<close> is true; otherwise, if the final id is
  10000062, \<^verbatim>\<open>collab\<close> is true and the rarity is unaltered; otherwise the rarity is
  unaltered and \<^verbatim>\<open>collab\<close> is what the caller supplied, false when the caller supplied
  none. In particular rarity 105 gives rarity 5 with \<^verbatim>\<open>collab\<close>, and rarity 5 with another
  id and no \<^verbatim>\<open>collab=True\<close> from the caller gives no \<^verbatim>\<open>collab\<close>.
\<close>

theorem autocomplete_collab:
  assumes "get_db_char st (v_id v) (v_icon v) (v_name v) (v_element v) (v_rarity v)
             = (Inr char, st')"
  shows "\<exists>c. autocomplete st v = (Inr c, st')
     \<and> bc_id c = db_id char
     \<and> (if db_rarity char > 100 then bc_rarity c = db_rarity char - 100 \<and> bc_collab c
         else if bc_id c = 10000062 then bc_rarity c = db_rarity char \<and> bc_collab c
         else bc_rarity c = db_rarity char \<and> bc_collab c = (v_collab v = Some True))
     \<and> (db_rarity char = 105 \<longrightarrow> bc_rarity c = 5 \<and> bc_collab c)
     \<and> (db_rarity char = 5 \<and> db_id char \<noteq> 10000062 \<and> v_collab v \<noteq> Some True
           \<longrightarrow> bc_rarity c = 5 \<and> \<not> bc_collab c)"
proof -
  obtain u where u: "create_icon st' (icon_name char) ''character_icon/UI_AvatarIcon'' 0 = Inr u"
    using create_icon_total by blast
  have k: "(case v_collab v of None \<Rightarrow> False | Some b \<Rightarrow> b) = (v_collab v = Some True)"
    by (cases "v_collab v") auto
  show ?thesis
    by (simp add: autocomplete_def assms u Let_def k)
qed

theorem autocomplete_collab_witness:
  "get_db_char st_aloy (v_id (only_id 10000062)) (v_icon (only_id 10000062))
      (v_name (only_id 10000062)) (v_element (only_id 10000062)) (v_rarity (only_id 10000062))
     = (Inr aloy, st_aloy)
   \<and> db_rarity aloy = 105
   \<and> (\<exists>c. autocomplete st_aloy (only_id 10000062) = (Inr c, st_aloy)
          \<and> bc_rarity c = 5 \<and> bc_collab c)
   \<and> get_db_char st_ayaka (v_id (only_id 10000002)) (v_icon (only_id 10000002))
      (v_name (only_id 10000002)) (v_element (only_id 10000002)) (v_rarity (only_id 10000002))
     = (Inr ayaka, st_ayaka)
   \<and> db_rarity ayaka = 5 \<and> db_id ayaka \<noteq> 10000062
   \<and> v_collab (only_id 10000002) \<noteq> Some True
   \<and> (\<exists>c. autocomplete st_ayaka (only_id 10000002) = (Inr c, st_ayaka)
          \<and> bc_rarity c = 5 \<and> \<not> bc_collab c)"
proof -
  have a: "get_db_char st_aloy (v_id (only_id 10000062)) (v_icon (only_id 10000062))
      (v_name (only_id 10000062)) (v_element (only_id 10000062)) (v_rarity (only_id 10000062))
     = (Inr aloy, st_aloy)"
    by (simp add: only_id_def get_aloy)
  have b: "get_db_char st_ayaka (v_id (only_id 10000002)) (v_icon (only_id 10000002))
      (v_name (only_id 10000002)) (v_element (only_id 10000002)) (v_rarity (only_id 10000002))
     = (Inr ayaka, st_ayaka)"
    by (simp add: only_id_def get_ayaka)
  have ra: "db_rarity aloy = 105"
    by (simp add: aloy_def)
  have rb: "db_rarity ayaka = 5 \<and> db_id ayaka \<noteq> 10000062"
    by (simp add: ayaka_def)
  have nc: "v_collab (only_id 10000002) \<noteq> Some True"
    by (simp add: only_id_def)
  from autocomplete_collab [OF a] ra
  have "\<exists>c. autocomplete st_aloy (only_id 10000062) = (Inr c, st_aloy)
          \<and> bc_rarity c = 5 \<and> bc_collab c"
    by auto
  moreover from autocomplete_collab [OF b] rb nc
  have "\<exists>c. autocomplete st_ayaka (only_id 10000002) = (Inr c, st_ayaka)
          \<and> bc_rarity c = 5 \<and> \<not> bc_collab c"
    by auto
  ultimately show ?thesis using a b ra rb nc by simp
qed

text \<open>
  The claim as first stated makes \<^verbatim>\<open>collab\<close> false whenever the rarity is at most 100 and
  the id is not 10000062. The validator has no such branch: a caller that supplies
  \<^verbatim>\<open>collab=True\<close> with the id of Kamisato Ayaka (rarity 5) gets a model with \<^verbatim>\<open>collab\<close>
  true.
\<close>

lemma create_icon_ayaka:
  "create_icon st ''Ayaka'' ''character_icon/UI_AvatarIcon'' 0
     = Inr ''https://upload-os-bbs.mihoyo.com/game_record/genshin/character_icon/UI_AvatarIcon_Ayaka.png''"
  by (simp add: create_icon_def parse_icon_def match_here_def ICON_BASE_def)

theorem supplied_collab_counterexample:
  "get_db_char st_ayaka (v_id collab_values) (v_icon collab_values) (v_name collab_values)
      (v_element collab_values) (v_rarity collab_values) = (Inr ayaka, st_ayaka)
   \<and> db_rarity ayaka = 5 \<and> db_id ayaka \<noteq> 10000062
   \<and> autocomplete st_ayaka collab_values = (Inr collab_char, st_ayaka)
   \<and> bc_rarity collab_char = 5 \<and> bc_id collab_char \<noteq> 10000062 \<and> bc_collab collab_char"
proof -
  have v: "v_id collab_values = Some 10000002" "v_icon collab_values = None"
    "v_name collab_values = None" "v_element collab_values = None"
    "v_rarity collab_values = None" "v_collab collab_values = Some True"
    by (simp_all add: collab_values_def)
  have f: "db_id ayaka = 10000002" "db_rarity ayaka = 5" "db_name ayaka = ''Kamisato Ayaka''"
    "db_element ayaka = ''Cryo''" "icon_name ayaka = ''Ayaka''"
    by (simp_all add: ayaka_def)
  have t: "truthy_str None = False"
    by (simp add: truthy_str_def)
  have a: "autocomplete st_ayaka collab_values = (Inr collab_char, st_ayaka)"
    by (simp add: autocomplete_def v get_ayaka f create_icon_ayaka t collab_char_def)
  from a v f show ?thesis
    by (simp add: get_ayaka collab_char_def)
qed

subsection \<open>The two scenarios with an unknown icon\<close>

text \<open>
  Claim C2, as amended. For a registry with no record whose \<^verbatim>\<open>icon_name\<close> is \<^verbatim>\<open>Ayaka\<close>,
  resolving an input that holds only an icon, where the icon contains the marker
  \<^verbatim>\<open>genshin\<close> and its extracted key is \<^verbatim>\<open>Ayaka\<close> (such as the full address
  \<open>ayaka_url\<close>), does not fail: it returns the transient record with id 0, key and name
  \<^verbatim>\<open>Ayaka\<close>, element \<^verbatim>\<open>Anemo\<close>, rarity 5, guessed, leaves the registry as it is and emits
  one warning.
\<close>

theorem unknown_icon_guess:
  assumes "contains ''genshin'' icon" and "parse_icon st (IsStr icon) = Inr ''Ayaka''"
    and "\<forall>char \<in> set (dict_values (CHARACTER_NAMES st)). icon_name char \<noteq> ''Ayaka''"
  shows "get_db_char st None None (Some icon) None None
     = (Inr \<lparr>db_id = 0, icon_name = ''Ayaka'', db_name = ''Ayaka'', db_element = ''Anemo'',
              db_rarity = 5, guessed = True\<rparr>,
        st\<lparr>warned := warned st
             @ [''Completing data for an unknown character: id=None, icon=Ayaka, name=None'']\<rparr>)"
proof -
  have "find_icon_name (CHARACTER_NAMES st) ''Ayaka'' = None"
    using assms(3) by (simp add: find_icon_name_None_iff)
  from get_db_char_icon_guess [OF id_miss_None assms(1,2) this, of None None None]
  show ?thesis
    by (simp add: truthy_int_def truthy_str_def fmt_int_def fmt_str_def warn_def)
qed

theorem unknown_icon_guess_witness:
  "contains ''genshin'' ayaka_url \<and> parse_icon st_aloy (IsStr ayaka_url) = Inr ''Ayaka''
   \<and> dict_values (CHARACTER_NAMES st_aloy) = [aloy] \<and> icon_name aloy \<noteq> ''Ayaka''
   \<and> get_db_char st_aloy None None (Some ayaka_url) None None
     = (Inr \<lparr>db_id = 0, icon_name = ''Ayaka'', db_name = ''Ayaka'', db_element = ''Anemo'',
              db_rarity = 5, guessed = True\<rparr>,
        st_aloy\<lparr>warned := warned st_aloy
             @ [''Completing data for an unknown character: id=None, icon=Ayaka, name=None'']\<rparr>)"
proof -
  have a: "\<forall>char \<in> set (dict_values (CHARACTER_NAMES st_aloy)). icon_name char \<noteq> ''Ayaka''"
    by (simp add: st_aloy_def dict_values_def aloy_def)
  have v: "dict_values (CHARACTER_NAMES st_aloy) = [aloy] \<and> icon_name aloy \<noteq> ''Ayaka''"
    by (simp add: st_aloy_def dict_values_def aloy_def)
  from unknown_icon_guess [OF ayaka_url_marker ayaka_url_key a] ayaka_url_marker ayaka_url_key v
  show ?thesis by simp
qed

text \<open>
  The claim as first stated names the bare icon \<^verbatim>\<open>UI_AvatarIcon_Ayaka.png\<close>, which does not
  contain the marker: the icon branch is skipped and, with no name, the call raises.
\<close>

theorem bare_icon_fails_counterexample:
  "get_db_char st_empty None None (Some ''UI_AvatarIcon_Ayaka.png'') None None
     = (Inl (ValueError ''Character data incomplete''), st_empty)"
  by (simp add: get_db_char_def truthy_int_def truthy_str_def)

text \<open>
  Claim C3, as amended. For a registry with no record under id 10000002 and none with
  \<^verbatim>\<open>icon_name\<close> \<^verbatim>\<open>Ayaka\<close>, resolving id 10000002, name \<^verbatim>\<open>Kamisato Ayaka\<close>, element \<^verbatim>\<open>Cryo\<close>,
  rarity 5 and an icon that contains the marker \<^verbatim>\<open>genshin\<close> and has the key \<^verbatim>\<open>Ayaka\<close>
  appends the guessed record to the registry and returns it; a following resolution with
  only the id returns that record by the direct id hit and changes nothing.
\<close>

theorem register_then_id_hit:
  assumes "contains ''genshin'' icon" and "parse_icon st (IsStr icon) = Inr ''Ayaka''"
    and "10000002 \<notin> fst ` set (CHARACTER_NAMES st)"
    and "\<forall>char \<in> set (dict_values (CHARACTER_NAMES st)). icon_name char \<noteq> ''Ayaka''"
  shows "get_db_char st (Some 10000002) (Some ''Kamisato Ayaka'') (Some icon) (Some ''Cryo'') (Some 5)
      = (Inr ayaka_guessed,
         st\<lparr>CHARACTER_NAMES := CHARACTER_NAMES st @ [(10000002, ayaka_guessed)]\<rparr>)
   \<and> get_db_char (st\<lparr>CHARACTER_NAMES := CHARACTER_NAMES st @ [(10000002, ayaka_guessed)]\<rparr>)
        (Some 10000002) None None None None
      = (Inr ayaka_guessed,
         st\<lparr>CHARACTER_NAMES := CHARACTER_NAMES st @ [(10000002, ayaka_guessed)]\<rparr>)"
proof -
  have miss: "id_miss st (Some 10000002)"
    using assms(3) by (simp add: id_miss_iff)
  have nf: "find_icon_name (CHARACTER_NAMES st) ''Ayaka'' = None"
    using assms(4) by (simp add: find_icon_name_None_iff)
  have "get_db_char st (Some 10000002) (Some ''Kamisato Ayaka'') (Some icon) (Some ''Cryo'') (Some 5)
      = (Inr ayaka_guessed,
         st\<lparr>CHARACTER_NAMES := dict_set 10000002 ayaka_guessed (CHARACTER_NAMES st)\<rparr>)"
    using get_db_char_icon_insert [OF miss assms(1,2) nf, of "''Kamisato Ayaka''" "''Cryo''" 5]
    by (simp add: ayaka_guessed_def)
  then have first: "get_db_char st (Some 10000002) (Some ''Kamisato Ayaka'') (Some icon)
        (Some ''Cryo'') (Some 5)
      = (Inr ayaka_guessed,
         st\<lparr>CHARACTER_NAMES := CHARACTER_NAMES st @ [(10000002, ayaka_guessed)]\<rparr>)"
    by (simp add: dict_set_fresh [OF assms(3)])
  have "dict_get (CHARACTER_NAMES st @ [(10000002, ayaka_guessed)]) 10000002 = Some ayaka_guessed"
    using assms(3) by (simp add: dict_get_def map_add_def map_of_eq_None_iff [THEN iffD2])
  then have "get_db_char (st\<lparr>CHARACTER_NAMES := CHARACTER_NAMES st @ [(10000002, ayaka_guessed)]\<rparr>)
        (Some 10000002) None None None None
      = (Inr ayaka_guessed,
         st\<lparr>CHARACTER_NAMES := CHARACTER_NAMES st @ [(10000002, ayaka_guessed)]\<rparr>)"
    by (intro get_db_char_id_hit) simp_all
  with first show ?thesis by simp
qed

theorem register_then_id_hit_witness:
  "contains ''genshin'' ayaka_url \<and> parse_icon st_aloy (IsStr ayaka_url) = Inr ''Ayaka''
   \<and> 10000002 \<notin> fst ` set (CHARACTER_NAMES st_aloy)
   \<and> dict_values (CHARACTER_NAMES st_aloy) = [aloy] \<and> icon_name aloy \<noteq> ''Ayaka''
   \<and> get_db_char st_aloy (Some 10000002) (Some ''Kamisato Ayaka'') (Some ayaka_url)
        (Some ''Cryo'') (Some 5)
      = (Inr ayaka_guessed,
         \<lparr>CHARACTER_NAMES = [(10000062, aloy), (10000002, ayaka_guessed)], warned = []\<rparr>)
   \<and> get_db_char \<lparr>CHARACTER_NAMES = [(10000062, aloy), (10000002, ayaka_guessed)], warned = []\<rparr>
        (Some 10000002) None None None None
      = (Inr ayaka_guessed,
         \<lparr>CHARACTER_NAMES = [(10000062, aloy), (10000002, ayaka_guessed)], warned = []\<rparr>)"
proof -
  have a: "10000002 \<notin> fst ` set (CHARACTER_NAMES st_aloy)"
    by (simp add: st_aloy_def)
  have b: "\<forall>char \<in> set (dict_values (CHARACTER_NAMES st_aloy)). icon_name char \<noteq> ''Ayaka''"
    by (simp add: st_aloy_def dict_values_def aloy_def)
  have c: "st_aloy\<lparr>CHARACTER_NAMES := CHARACTER_NAMES st_aloy @ [(10000002, ayaka_guessed)]\<rparr>
      = \<lparr>CHARACTER_NAMES = [(10000062, aloy), (10000002, ayaka_guessed)], warned = []\<rparr>"
    by (simp add: st_aloy_def)
  have v: "dict_values (CHARACTER_NAMES st_aloy) = [aloy] \<and> icon_name aloy \<noteq> ''Ayaka''"
    by (simp add: st_aloy_def dict_values_def aloy_def)
  from register_then_id_hit [OF ayaka_url_marker ayaka_url_key a b] ayaka_url_marker
    ayaka_url_key a v
  show ?thesis unfolding c by simp
qed

text \<open>
  With the bare icon \<^verbatim>\<open>UI_AvatarIcon_Ayaka.png\<close> of the claim as first stated, the icon
  branch is skipped: the name branch returns a transient record with id 0, nothing is
  registered, and the following resolution by id raises.
\<close>

theorem bare_icon_not_registered_counterexample:
  "get_db_char st_empty (Some 10000002) (Some ''Kamisato Ayaka'') (Some ''UI_AvatarIcon_Ayaka.png'')
        (Some ''Cryo'') (Some 5)
     = (Inr \<lparr>db_id = 0, icon_name = ''Kamisato Ayaka'', db_name = ''Kamisato Ayaka'',
              db_element = ''Cryo'', db_rarity = 5, guessed = True\<rparr>,
        \<lparr>CHARACTER_NAMES = [],
         warned = [''Completing data for a partial character: id=10000002, name=Kamisato Ayaka'']\<rparr>)
   \<and> get_db_char \<lparr>CHARACTER_NAMES = [],
         warned = [''Completing data for a partial character: id=10000002, name=Kamisato Ayaka'']\<rparr>
         (Some 10000002) None None None None
     = (Inl (ValueError ''Character data incomplete''), \<lparr>CHARACTER_NAMES = [],
         warned = [''Completing data for a partial character: id=10000002, name=Kamisato Ayaka'']\<rparr>)"
  by (simp add: get_db_char_def truthy_int_def truthy_str_def st_empty_def dict_get_def
    find_name_def dict_values_def warn_def fmt_int_def str_int_def str_nat.simps)


subsection \<open>The registry invariant\<close>

text \<open>What one call does to the registry.\<close>

lemma get_db_char_registry:
  assumes "get_db_char st ident name icon element rarity = (res, st')"
  shows "(CHARACTER_NAMES st' = CHARACTER_NAMES st
          \<or> (\<exists>char. res = Inr char \<and> db_id char \<noteq> 0
                \<and> db_id char \<notin> fst ` set (CHARACTER_NAMES st)
                \<and> CHARACTER_NAMES st' = CHARACTER_NAMES st @ [(db_id char, char)]))
       \<and> ((\<exists>e. res = Inl e) \<or> (\<exists>char. res = Inr char \<and> db_id char = 0)
            \<longrightarrow> CHARACTER_NAMES st' = CHARACTER_NAMES st)"
proof (cases rule: get_db_char_cases
    [where st = st and ident = ident and name = name and icon = icon
       and element = element and rarity = rarity])
  case (id_hit i char)
  with get_db_char_id_hit [OF id_hit(2,3)] assms show ?thesis
    by simp
next
  case (icon_found s k char)
  with get_db_char_icon_found [OF icon_found(1,3,4,5)] assms show ?thesis
    by simp
next
  case (icon_insert s k i n e r)
  let ?c = "\<lparr>db_id = i, icon_name = k, db_name = n, db_element = e, db_rarity = r,
              guessed = True\<rparr>"
  from icon_insert have fresh: "i \<notin> fst ` set (CHARACTER_NAMES st)"
    by (simp add: id_miss_iff)
  have "get_db_char st ident name icon element rarity
          = (Inr ?c, st\<lparr>CHARACTER_NAMES := CHARACTER_NAMES st @ [(i, ?c)]\<rparr>)"
    using icon_insert get_db_char_icon_insert [of st i s k n e r]
    by (simp add: dict_set_fresh [OF fresh])
  with assms have "res = Inr ?c"
    and "CHARACTER_NAMES st' = CHARACTER_NAMES st @ [(db_id ?c, ?c)]"
    by auto
  moreover have "db_id ?c \<noteq> 0" and "db_id ?c \<notin> fst ` set (CHARACTER_NAMES st)"
    using fresh icon_insert(7) by simp_all
  ultimately show ?thesis
    by blast
next
  case (icon_guess s k)
  with get_db_char_icon_guess [OF icon_guess(1,3,4,5,6)] assms show ?thesis
    by (auto simp: warn_def)
next
  case (name_found n char)
  with get_db_char_name_found [OF name_found(1,2,4,5)] assms show ?thesis
    by simp
next
  case (name_guess n)
  with get_db_char_name_guess [OF name_guess(1,2,4,5)] assms show ?thesis
    by (auto simp: warn_def)
next
  case incomplete
  with get_db_char_incomplete [OF incomplete] assms show ?thesis
    by simp
qed

lemma registry_ok_append:
  "registry_ok d \<Longrightarrow> k \<notin> fst ` set d \<Longrightarrow> db_id char = k \<Longrightarrow> registry_ok (d @ [(k, char)])"
  by (auto simp: registry_ok_def)

lemma get_db_char_registry_ok:
  assumes "registry_ok (CHARACTER_NAMES st)"
    and "get_db_char st ident name icon element rarity = (res, st')"
  shows "registry_ok (CHARACTER_NAMES st')"
  using get_db_char_registry [OF assms(2)] assms(1)
  by (auto simp: registry_ok_append)

lemma autocomplete_state:
  "snd (autocomplete st v)
     = snd (get_db_char st (v_id v) (v_icon v) (v_name v) (v_element v) (v_rarity v))"
proof (cases "get_db_char st (v_id v) (v_icon v) (v_name v) (v_element v) (v_rarity v)")
  case (Pair res st')
  show ?thesis
  proof (cases res)
    case (Inl e)
    with Pair show ?thesis by (simp add: autocomplete_def)
  next
    case (Inr char)
    obtain u where "create_icon st' (icon_name char) ''character_icon/UI_AvatarIcon'' 0 = Inr u"
      using create_icon_total by blast
    with Pair Inr show ?thesis by (simp add: autocomplete_def Let_def)
  qed
qed

lemma run_call_registry_ok:
  assumes "registry_ok (CHARACTER_NAMES st)"
  shows "registry_ok (CHARACTER_NAMES (run_call st c))"
proof (cases c)
  case (Resolve ident name icon element rarity)
  then show ?thesis
    using get_db_char_registry_ok [OF assms prod.collapse [symmetric]]
    by simp
next
  case (Construct vals)
  then show ?thesis
    using get_db_char_registry_ok [OF assms prod.collapse [symmetric]]
    by (simp add: autocomplete_state)
qed

lemma run_registry_ok:
  "registry_ok (CHARACTER_NAMES st) \<Longrightarrow> registry_ok (CHARACTER_NAMES (run st calls))"
  unfolding run_def
  by (induction calls arbitrary: st) (simp_all add: run_call_registry_ok)

lemma registry_ok_ids: "registry_ok d \<Longrightarrow> distinct (map db_id (dict_values d))"
proof -
  assume ok: "registry_ok d"
  then have "map db_id (dict_values d) = map fst d"
    by (auto simp: registry_ok_def dict_values_def)
  with ok show ?thesis by (simp add: registry_ok_def)
qed

lemma resolve_ayaka_url:
  "get_db_char st_aloy (Some 10000002) (Some ''Kamisato Ayaka'') (Some ayaka_url)
        (Some ''Cryo'') (Some 5) = (Inr ayaka_guessed, st_both)"
proof -
  have miss: "id_miss st_aloy (Some 10000002)"
    by (simp add: id_miss_iff st_aloy_def)
  have nf: "find_icon_name (CHARACTER_NAMES st_aloy) ''Ayaka'' = None"
    by (simp add: find_icon_name_def dict_values_def st_aloy_def aloy_def)
  from get_db_char_icon_insert [OF miss ayaka_url_marker ayaka_url_key nf,
      of "''Kamisato Ayaka''" "''Cryo''" 5]
  show ?thesis
    by (simp add: ayaka_guessed_def st_both_def st_aloy_def)
qed

text \<open>
  Claim C7. In every state reachable from a well-formed registry no two records share an
  id. Every resolve call from such a state either leaves the registry unchanged, and
  does so whenever it fails or returns a record with id 0, or appends exactly one record
  under its own non-zero id, which was not a key before: a stored record is never
  overwritten.
\<close>

theorem registry_ids_unique:
  assumes "registry_ok (CHARACTER_NAMES st0)" and "st = run st0 calls"
  shows "distinct (map db_id (dict_values (CHARACTER_NAMES st)))
    \<and> registry_ok (CHARACTER_NAMES st)
    \<and> (\<forall>ident name icon element rarity res st'.
          get_db_char st ident name icon element rarity = (res, st') \<longrightarrow>
            (CHARACTER_NAMES st' = CHARACTER_NAMES st
              \<or> (\<exists>char. res = Inr char \<and> db_id char \<noteq> 0
                    \<and> db_id char \<notin> fst ` set (CHARACTER_NAMES st)
                    \<and> CHARACTER_NAMES st' = CHARACTER_NAMES st @ [(db_id char, char)]))
            \<and> ((\<exists>e. res = Inl e) \<or> (\<exists>char. res = Inr char \<and> db_id char = 0)
                 \<longrightarrow> CHARACTER_NAMES st' = CHARACTER_NAMES st))"
proof (intro conjI allI impI)
  show ok: "registry_ok (CHARACTER_NAMES st)"
    using run_registry_ok [OF assms(1)] assms(2) by simp
  show "distinct (map db_id (dict_values (CHARACTER_NAMES st)))"
    using registry_ok_ids [OF ok] .
next
  fix ident name icon element rarity res st'
  assume "get_db_char st ident name icon element rarity = (res, st')"
  from get_db_char_registry [OF this]
  show "CHARACTER_NAMES st' = CHARACTER_NAMES st
      \<or> (\<exists>char. res = Inr char \<and> db_id char \<noteq> 0
            \<and> db_id char \<notin> fst ` set (CHARACTER_NAMES st)
            \<and> CHARACTER_NAMES st' = CHARACTER_NAMES st @ [(db_id char, char)])"
    and "(\<exists>e. res = Inl e) \<or> (\<exists>char. res = Inr char \<and> db_id char = 0)
      \<Longrightarrow> CHARACTER_NAMES st' = CHARACTER_NAMES st"
    by simp_all
qed

theorem registry_ids_unique_witness:
  "registry_ok (CHARACTER_NAMES st_aloy)
   \<and> st_both = run st_aloy [Resolve (Some 10000002) (Some ''Kamisato Ayaka'') (Some ayaka_url)
        (Some ''Cryo'') (Some 5)]
   \<and> distinct (map db_id (dict_values (CHARACTER_NAMES st_both)))
   \<and> registry_ok (CHARACTER_NAMES st_both)"
proof -
  have a: "registry_ok (CHARACTER_NAMES st_aloy)"
    by (simp add: registry_ok_def st_aloy_def aloy_def)
  have b: "st_both = run st_aloy [Resolve (Some 10000002) (Some ''Kamisato Ayaka'')
        (Some ayaka_url) (Some ''Cryo'') (Some 5)]"
    by (simp add: run_def resolve_ayaka_url)
  from registry_ids_unique [OF a b] a b show ?thesis
    by simp
qed

subsection \<open>Falsy field values\<close>

lemma truthy_falsy:
  "truthy_str (Some '''') = False" "truthy_str None = False"
  "truthy_int (Some 0) = False" "truthy_int None = False"
  by (simp_all add: truthy_str_def truthy_int_def)

lemma falsy_element:
  "get_db_char st ident name icon (Some '''') rarity
      = get_db_char st ident name icon None rarity"
  by (simp add: get_db_char_def truthy_falsy cong: option.case_cong sum.case_cong if_cong)

lemma falsy_rarity:
  "get_db_char st ident name icon element (Some 0)
      = get_db_char st ident name icon element None"
  by (simp add: get_db_char_def truthy_falsy cong: option.case_cong sum.case_cong if_cong)

lemma falsy_icon:
  "get_db_char st ident name (Some '''') element rarity
      = get_db_char st ident name None element rarity"
  by (simp add: get_db_char_def truthy_falsy cong: option.case_cong sum.case_cong if_cong)

lemma falsy_id:
  "fst (get_db_char st (Some 0) name icon element rarity)
      = fst (get_db_char st None name icon element rarity)
   \<and> CHARACTER_NAMES (snd (get_db_char st (Some 0) name icon element rarity))
      = CHARACTER_NAMES (snd (get_db_char st None name icon element rarity))"
  by (simp add: get_db_char_def truthy_falsy warn_def cong: option.case_cong sum.case_cong if_cong
      split: sum.split option.split)

lemma falsy_name:
  "fst (get_db_char st ident (Some '''') icon element rarity)
      = fst (get_db_char st ident None icon element rarity)
   \<and> CHARACTER_NAMES (snd (get_db_char st ident (Some '''') icon element rarity))
      = CHARACTER_NAMES (snd (get_db_char st ident None icon element rarity))"
  by (simp add: get_db_char_def truthy_falsy warn_def cong: option.case_cong sum.case_cong if_cong
      split: sum.split option.split)

lemma falsy_all:
  assumes "ident \<in> {None, Some 0}" and "icon \<in> {None, Some ''''}" and "name \<in> {None, Some ''''}"
  shows "get_db_char st ident name icon element rarity
          = (Inl (ValueError ''Character data incomplete''), st)"
proof (rule get_db_char_incomplete)
  show "id_miss st ident" using assms(1) by (auto simp: id_miss_alt)
  show "\<forall>s. icon = Some s \<longrightarrow> \<not> contains ''genshin'' s" using assms(2) by auto
  show "name = None \<or> name = Some ''''" using assms(3) by simp
qed

lemma falsy_facade:
  "autocomplete st (only_id 0) = (Inl (ValueError ''Character data incomplete''), st)
   \<and> autocomplete st empty_strings = (Inl (ValueError ''Character data incomplete''), st)"
  by (simp add: autocomplete_def only_id_def empty_strings_def falsy_all)

lemma find_icon_name_mem: "find_icon_name d k = Some char \<Longrightarrow> char \<in> set (dict_values d)"
  by (auto simp: find_icon_name_def find_Some_iff)

lemma find_name_mem: "find_name d n = Some char \<Longrightarrow> char \<in> set (dict_values d)"
  by (auto simp: find_name_def find_Some_iff)

lemma dict_get_mem: "dict_get d k = Some char \<Longrightarrow> char \<in> set (dict_values d)"
  by (force simp: dict_get_def dict_values_def dest: map_of_SomeD)

lemma guessed_defaults:
  assumes "fst (get_db_char st ident name icon element rarity) = Inr char"
    and "char \<notin> set (dict_values (CHARACTER_NAMES st))"
  shows "(element \<in> {None, Some ''''} \<longrightarrow> db_element char = ''Anemo'')
       \<and> (rarity \<in> {None, Some 0} \<longrightarrow> db_rarity char = 5)"
proof (cases rule: get_db_char_cases
    [where st = st and ident = ident and name = name and icon = icon
       and element = element and rarity = rarity])
  case (id_hit i char')
  with get_db_char_id_hit [OF id_hit(2,3)] assms dict_get_mem show ?thesis
    by fastforce
next
  case (icon_found s k char')
  with get_db_char_icon_found [OF icon_found(1,3,4,5)] assms find_icon_name_mem show ?thesis
    by fastforce
next
  case (icon_insert s k i n e r)
  with get_db_char_icon_insert [of st i s k n e r] assms(1) show ?thesis
    by auto
next
  case (icon_guess s k)
  with get_db_char_icon_guess [OF icon_guess(1,3,4,5,6)] assms(1) show ?thesis
    by (auto simp: truthy_str_def truthy_int_def)
next
  case (name_found n char')
  with get_db_char_name_found [OF name_found(1,2,4,5)] assms find_name_mem show ?thesis
    by fastforce
next
  case (name_guess n)
  with get_db_char_name_guess [OF name_guess(1,2,4,5)] assms(1) show ?thesis
    by (auto simp: truthy_str_def truthy_int_def)
next
  case incomplete
  with get_db_char_incomplete [OF incomplete] assms(1) show ?thesis
    by simp
qed

text \<open>
  Claim C10. Falsy values count as absent. An id of 0 gives the result and registry that
  no id gives, so it never takes the direct id hit, whatever the registry holds under 0.
  An empty icon behaves as no icon, an empty name gives the result and registry that no
  name gives, and an empty element or a zero rarity behaves as none. With only falsy id,
  icon and name the call raises the insufficient-data error, also through the validator
  when only \<^verbatim>\<open>id=0\<close> or only empty strings are supplied. A returned record that does not
  come from the registry has element \<^verbatim>\<open>Anemo\<close> when the element is falsy and rarity 5 when
  the rarity is falsy.
\<close>

theorem falsy_fields_are_absent:
  "fst (get_db_char st (Some 0) name icon element rarity)
      = fst (get_db_char st None name icon element rarity)
   \<and> CHARACTER_NAMES (snd (get_db_char st (Some 0) name icon element rarity))
      = CHARACTER_NAMES (snd (get_db_char st None name icon element rarity))
   \<and> get_db_char st ident name (Some '''') element rarity
      = get_db_char st ident name None element rarity
   \<and> fst (get_db_char st ident (Some '''') icon element rarity)
      = fst (get_db_char st ident None icon element rarity)
   \<and> CHARACTER_NAMES (snd (get_db_char st ident (Some '''') icon element rarity))
      = CHARACTER_NAMES (snd (get_db_char st ident None icon element rarity))
   \<and> get_db_char st ident name icon (Some '''') rarity
      = get_db_char st ident name icon None rarity
   \<and> get_db_char st ident name icon element (Some 0)
      = get_db_char st ident name icon element None
   \<and> (ident \<in> {None, Some 0} \<and> icon \<in> {None, Some ''''} \<and> name \<in> {None, Some ''''} \<longrightarrow>
        get_db_char st ident name icon element rarity
          = (Inl (ValueError ''Character data incomplete''), st))
   \<and> autocomplete st (only_id 0) = (Inl (ValueError ''Character data incomplete''), st)
   \<and> autocomplete st empty_strings = (Inl (ValueError ''Character data incomplete''), st)
   \<and> (\<forall>char. fst (get_db_char st ident name icon element rarity) = Inr char
          \<and> char \<notin> set (dict_values (CHARACTER_NAMES st)) \<longrightarrow>
          (element \<in> {None, Some ''''} \<longrightarrow> db_element char = ''Anemo'')
          \<and> (rarity \<in> {None, Some 0} \<longrightarrow> db_rarity char = 5))"
  using falsy_id [of st name icon element rarity] falsy_icon [of st ident name element rarity]
    falsy_name [of st ident icon element rarity] falsy_element [of st ident name icon rarity]
    falsy_rarity [of st ident name icon element] falsy_all [of ident icon name st element rarity]
    falsy_facade [of st] guessed_defaults [of st ident name icon element rarity]
  by (intro conjI allI impI) blast+


theorem falsy_fields_are_absent_witness:
  "Some 0 \<in> {None, Some (0::int)} \<and> (None :: string option) \<in> {None, Some ''''}
   \<and> get_db_char st_zero (Some 0) None None None None
       = (Inl (ValueError ''Character data incomplete''), st_zero)
   \<and> fst (get_db_char st_zero None (Some ''Kaeya'') None (Some '''') (Some 0))
       = Inr kaeya_guess
   \<and> kaeya_guess \<notin> set (dict_values (CHARACTER_NAMES st_zero))
   \<and> Some '''' \<in> {None, Some ''''}
   \<and> db_element kaeya_guess = ''Anemo'' \<and> db_rarity kaeya_guess = 5"
proof -
  have a: "Some 0 \<in> {None, Some (0::int)} \<and> (None :: string option) \<in> {None, Some ''''}
      \<and> (None :: string option) \<in> {None, Some ''''}"
    by simp
  have b: "Some '''' \<in> {None, Some ''''}" "Some 0 \<in> {None, Some (0::int)}"
    by simp_all
  from falsy_fields_are_absent [of st_zero None None None None "Some 0"] a
  have "get_db_char st_zero (Some 0) None None None None
       = (Inl (ValueError ''Character data incomplete''), st_zero)"
    by blast
  moreover
  have ev: "fst (get_db_char st_zero None (Some ''Kaeya'') None (Some '''') (Some 0))
       = Inr kaeya_guess"
    by (simp add: get_db_char_def truthy_int_def truthy_str_def find_name_def dict_values_def
        st_zero_def kaeya_guess_def)
  moreover have nm: "kaeya_guess \<notin> set (dict_values (CHARACTER_NAMES st_zero))"
    by (simp add: dict_values_def st_zero_def kaeya_guess_def)
  moreover
  from falsy_fields_are_absent [of st_zero "Some ''Kaeya''" None "Some ''''" "Some 0" None]
    ev nm b
  have "db_element kaeya_guess = ''Anemo'' \<and> db_rarity kaeya_guess = 5"
    by blast
  ultimately show ?thesis by simp
qed


subsection \<open>Extracting the key twice\<close>

text \<open>The group of a match is a piece of the string to the right of the matched marker, so
  the marker occurs less often in the group than in the string.\<close>

lemma group_png_prefix: "group_png r = Some g \<Longrightarrow> prefix g r"
  by (induction r arbitrary: g) (auto split: if_splits option.splits)

lemma match_here_marker: "match_here s = Some g \<Longrightarrow> prefix ''UI_AvatarIcon'' s"
  by (auto simp: match_here_def split: if_splits)

lemma match_here_sublist:
  assumes "match_here s = Some g"
  shows "sublist g (drop 13 s)"
proof -
  from assms have "group_png (drop 6 (drop 13 s)) = Some g \<or> group_png (drop 1 (drop 13 s)) = Some g"
    by (auto simp: match_here_def Let_def split: if_splits option.splits)
  then obtain n where "prefix g (drop n (drop 13 s))"
    using group_png_prefix by blast
  then have "sublist g (drop n (drop 13 s))"
    by (rule prefix_imp_sublist)
  moreover have "sublist (drop n (drop 13 s)) (drop 13 s)"
    by (rule sublist_drop)
  ultimately show ?thesis
    by (rule sublist_order.order.trans)
qed

lemma re_search_suffix:
  "re_search s = Some g \<Longrightarrow> \<exists>t. suffix t s \<and> match_here t = Some g"
proof (induction s)
  case Nil
  then have "suffix [] ([] :: string) \<and> match_here [] = Some g"
    by simp
  then show ?case ..
next
  case (Cons c cs)
  show ?case
  proof (cases "match_here (c # cs)")
    case (Some g')
    with Cons.prems have "suffix (c # cs) (c # cs) \<and> match_here (c # cs) = Some g"
      by simp
    then show ?thesis ..
  next
    case None
    with Cons.prems have "re_search cs = Some g"
      by simp
    from Cons.IH [OF this] obtain t where "suffix t cs" and "match_here t = Some g"
      by blast
    then have "suffix t (c # cs) \<and> match_here t = Some g"
      by (simp add: suffix_ConsI)
    then show ?thesis ..
  qed
qed

lemma occurrences_append_left: "occurrences p t \<le> occurrences p (ps @ t)"
  by (induction ps) auto

lemma occurrences_append_right: "p \<noteq> [] \<Longrightarrow> occurrences p t \<le> occurrences p (t @ ss)"
proof (induction t)
  case Nil
  then show ?case by simp
next
  case (Cons c cs)
  have "prefix p (c # cs) \<Longrightarrow> prefix p (c # cs @ ss)"
    using prefix_prefix [of p "c # cs" ss] by simp
  with Cons show ?case by auto
qed

lemma occurrences_sublist:
  assumes "p \<noteq> []" and "sublist g r"
  shows "occurrences p g \<le> occurrences p r"
proof -
  from assms(2) obtain ps ss where r: "r = ps @ g @ ss"
    by (auto simp: sublist_def)
  have "occurrences p g \<le> occurrences p (g @ ss)"
    using occurrences_append_right [OF assms(1)] .
  also have "\<dots> \<le> occurrences p (ps @ g @ ss)"
    by (rule occurrences_append_left)
  finally show ?thesis by (simp add: r)
qed

lemma match_here_no_marker: "\<not> prefix ''UI_AvatarIcon'' s \<Longrightarrow> match_here s = None"
  by (simp add: match_here_def)

lemma occurrences_none_no_match: "occurrences ''UI_AvatarIcon'' t = 0 \<Longrightarrow> re_search t = None"
proof (induction t)
  case Nil
  then show ?case by (simp add: match_here_def)
next
  case (Cons c cs)
  from Cons.prems have np: "\<not> prefix ''UI_AvatarIcon'' (c # cs)"
    and "occurrences ''UI_AvatarIcon'' cs = 0"
    by (auto split: if_splits)
  with Cons.IH have "re_search cs = None"
    by simp
  then show ?case
    by (simp only: re_search.simps match_here_no_marker [OF np] option.case)
qed

lemma group_occurrences:
  assumes "re_search s = Some g"
  shows "Suc (occurrences ''UI_AvatarIcon'' g) \<le> occurrences ''UI_AvatarIcon'' s"
proof -
  from re_search_suffix [OF assms] obtain t where t: "suffix t s" "match_here t = Some g"
    by blast
  then have m: "prefix ''UI_AvatarIcon'' t"
    using match_here_marker by blast
  then obtain c cs where cs: "t = c # cs"
    by (cases t) auto
  have "sublist g (drop 13 t)"
    using match_here_sublist [OF t(2)] .
  moreover have "sublist (drop 13 t) cs"
    using cs sublist_drop [of 12 cs] by simp
  ultimately have "sublist g cs"
    by (rule sublist_order.order.trans)
  then have "occurrences ''UI_AvatarIcon'' g \<le> occurrences ''UI_AvatarIcon'' cs"
    by (intro occurrences_sublist) simp_all
  then have "Suc (occurrences ''UI_AvatarIcon'' g) \<le> occurrences ''UI_AvatarIcon'' t"
    using m cs by simp
  also have "\<dots> \<le> occurrences ''UI_AvatarIcon'' s"
    using t(1) occurrences_append_left by (auto simp: suffix_def)
  finally show ?thesis .
qed

text \<open>
  Claim C5, as amended. \<^verbatim>\<open>_parse_icon\<close> on strings is idempotent at every string in which
  the marker \<^verbatim>\<open>UI_AvatarIcon\<close> occurs at most once: applied to its own output it returns
  that output unchanged.
\<close>

theorem parse_icon_idempotent:
  assumes "occurrences ''UI_AvatarIcon'' x \<le> 1"
  shows "\<exists>k. parse_icon st (IsStr x) = Inr k \<and> parse_icon st (IsStr k) = Inr k"
proof (cases "re_search x")
  case None
  then show ?thesis by (simp add: parse_icon_def)
next
  case (Some g)
  from group_occurrences [OF Some] assms have "occurrences ''UI_AvatarIcon'' g = 0"
    by simp
  then have "re_search g = None"
    by (rule occurrences_none_no_match)
  with Some show ?thesis by (simp add: parse_icon_def)
qed


theorem parse_icon_idempotent_witness:
  "occurrences ''UI_AvatarIcon'' ayaka_url \<le> 1
   \<and> parse_icon st_empty (IsStr ayaka_url) = Inr ''Ayaka''
   \<and> parse_icon st_empty (IsStr ''Ayaka'') = Inr ''Ayaka''"
proof -
  have a: "occurrences ''UI_AvatarIcon'' ayaka_url \<le> 1"
    by (simp add: ayaka_url_def)
  from parse_icon_idempotent [OF a, of st_empty] a show ?thesis
    by (simp add: ayaka_url_key)
qed

text \<open>
  The claim as first stated, for every string, fails where the pattern is nested: the
  key extracted from \<open>nested_icon\<close> still matches the pattern, and extracting again gives
  a different string.
\<close>

theorem nested_icon_counterexample:
  "parse_icon st_empty (IsStr nested_icon) = Inr ''UI_AvatarIcon_A.png''
   \<and> parse_icon st_empty (IsStr ''UI_AvatarIcon_A.png'') = Inr ''A''
   \<and> ''A'' \<noteq> ''UI_AvatarIcon_A.png''"
  by (simp add: parse_icon_def nested_icon_def match_here_def)


subsection \<open>The derived addresses\<close>

lemma str_int_2: "str_int 2 = ''2''"
  by (simp add: str_int_def str_nat.simps)

lemma suffix_last: "suffix xs ys \<Longrightarrow> xs \<noteq> [] \<Longrightarrow> last xs = last ys"
  by (auto simp: suffix_def)

lemma scale_suffix_after_tag:
  assumes "last p = CHR ''_''" and "p \<noteq> []"
  shows "suffix ''@2x'' (p @ key) \<longleftrightarrow> suffix ''@2x'' key"
proof
  assume "suffix ''@2x'' key"
  then show "suffix ''@2x'' (p @ key)"
    by (rule suffix_appendI)
next
  assume "suffix ''@2x'' (p @ key)"
  then have "suffix ''@2x'' key \<or> (\<exists>xs. ''@2x'' = xs @ key \<and> suffix xs p)"
    by (simp add: suffix_append)
  then show "suffix ''@2x'' key"
  proof (elim disjE exE conjE)
    fix xs
    assume split: "''@2x'' = xs @ key" and sp: "suffix xs p"
    show "suffix ''@2x'' key"
    proof (cases "xs = []")
      case True
      with split show ?thesis by simp
    next
      case False
      with sp assms(1) have "last xs = CHR ''_''"
        using suffix_last by fastforce
      moreover from split False have "xs = ''@'' \<or> xs = ''@2'' \<or> xs = ''@2x''"
        by (auto simp: Cons_eq_append_conv)
      ultimately show ?thesis
        by auto
    qed
  qed
qed

lemma scaled_key:
  "parse_icon st (IsStr scaled_url) = Inr ''Ayaka@2x''"
  by (simp add: parse_icon_def scaled_url_def match_here_def)

lemma scaled_url_marker: "contains ''genshin'' scaled_url"
  by (simp add: scaled_url_def)

text \<open>
  Claim C8, as amended. For every model object, \<^verbatim>\<open>image\<close> and \<^verbatim>\<open>side_icon\<close> return
  addresses that begin with \<^verbatim>\<open>ICON_BASE\<close> and end with \<^verbatim>\<open>.png\<close>; the \<^verbatim>\<open>image\<close> address has
  \<^verbatim>\<open>@2x\<close> immediately before the extension; the \<^verbatim>\<open>side_icon\<close> address is the base, the
  tag, an underscore, the key and the extension with nothing added between key and
  extension, so it has \<^verbatim>\<open>@2x\<close> before the extension exactly when the key extracted from
  the stored icon itself ends in \<^verbatim>\<open>@2x\<close>.
\<close>

theorem derived_urls:
  "\<exists>key img side.
      parse_icon st (IsStr (bc_icon self)) = Inr key
    \<and> image_url st self = Inr img \<and> side_icon st self = Inr side
    \<and> prefix ICON_BASE img \<and> suffix ''@2x.png'' img
    \<and> prefix ICON_BASE side \<and> suffix ''.png'' side
    \<and> img = ICON_BASE @ ''character_image/UI_AvatarIcon_'' @ key @ ''@2x.png''
    \<and> side = ICON_BASE @ ''character_side_icon/UI_AvatarIcon_Side_'' @ key @ ''.png''
    \<and> (suffix ''@2x.png'' side \<longleftrightarrow> suffix ''@2x'' key)"
proof -
  obtain key where key: "parse_icon st (IsStr (bc_icon self)) = Inr key"
    using parse_icon_str_total by blast
  let ?img = "ICON_BASE @ ''character_image/UI_AvatarIcon_'' @ key @ ''@2x.png''"
  let ?side = "ICON_BASE @ ''character_side_icon/UI_AvatarIcon_Side_'' @ key @ ''.png''"
  have i: "image_url st self = Inr ?img"
    by (simp add: image_url_def create_icon_def key str_int_2)
  have s: "side_icon st self = Inr ?side"
    by (simp add: side_icon_def create_icon_def key)
  have p: "prefix ICON_BASE ?img" "prefix ICON_BASE ?side"
    by simp_all
  have "suffix ''@2x.png'' ((ICON_BASE @ ''character_image/UI_AvatarIcon_'' @ key) @ ''@2x.png'')"
    by (rule suffixI) (rule refl)
  moreover
  have "suffix ''.png'' ((ICON_BASE @ ''character_side_icon/UI_AvatarIcon_Side_'' @ key) @ ''.png'')"
    by (rule suffixI) (rule refl)
  ultimately have e: "suffix ''@2x.png'' ?img" "suffix ''.png'' ?side"
    by simp_all
  have "suffix (''@2x'' @ ''.png'')
          ((ICON_BASE @ ''character_side_icon/UI_AvatarIcon_Side_'' @ key) @ ''.png'')
      \<longleftrightarrow> suffix ''@2x'' (ICON_BASE @ ''character_side_icon/UI_AvatarIcon_Side_'' @ key)"
    by (rule same_suffix_suffix)
  also have "\<dots> \<longleftrightarrow> suffix ''@2x'' ((ICON_BASE @ ''character_side_icon/UI_AvatarIcon_Side_'') @ key)"
    by simp
  also have "\<dots> \<longleftrightarrow> suffix ''@2x'' key"
    by (rule scale_suffix_after_tag) simp_all
  finally have q: "suffix ''@2x.png'' ?side \<longleftrightarrow> suffix ''@2x'' key"
    by simp
  from key i s p e q show ?thesis by blast
qed


text \<open>
  The claim as first stated says the \<^verbatim>\<open>side_icon\<close> address never has a scale suffix. A
  model constructed from a registered id and a scaled image address keeps that address
  as its icon, and its \<^verbatim>\<open>side_icon\<close> ends in \<^verbatim>\<open>@2x.png\<close>.
\<close>

theorem side_icon_scale_counterexample:
  "autocomplete st_ayaka scaled_values = (Inr scaled_char, st_ayaka)
   \<and> side_icon st_ayaka scaled_char
       = Inr ''https://upload-os-bbs.mihoyo.com/game_record/genshin/character_side_icon/UI_AvatarIcon_Side_Ayaka@2x.png''
   \<and> suffix ''@2x.png'' ''https://upload-os-bbs.mihoyo.com/game_record/genshin/character_side_icon/UI_AvatarIcon_Side_Ayaka@2x.png''"
proof -
  have v: "v_id scaled_values = Some 10000002" "v_icon scaled_values = Some scaled_url"
    "v_name scaled_values = None" "v_element scaled_values = None"
    "v_rarity scaled_values = None" "v_collab scaled_values = None"
    by (simp_all add: scaled_values_def)
  have hit: "get_db_char st_ayaka (Some 10000002) (Some scaled_url) None None None
      = (Inr ayaka, st_ayaka)"
    by (rule get_db_char_id_hit) (simp_all add: st_ayaka_def dict_get_def)
  obtain u where u: "create_icon st_ayaka (icon_name ayaka) ''character_icon/UI_AvatarIcon'' 0
      = Inr u"
    using create_icon_total by blast
  have t: "truthy_str (Some scaled_url)"
    using scaled_url_marker by (auto simp: truthy_str_def)
  have f: "db_id ayaka = 10000002" "db_rarity ayaka = 5" "db_name ayaka = ''Kamisato Ayaka''"
    "db_element ayaka = ''Cryo''"
    by (simp_all add: ayaka_def)
  have a: "autocomplete st_ayaka scaled_values = (Inr scaled_char, st_ayaka)"
    by (simp add: autocomplete_def v hit u t scaled_url_marker f scaled_char_def)
  have b: "side_icon st_ayaka scaled_char
       = Inr ''https://upload-os-bbs.mihoyo.com/game_record/genshin/character_side_icon/UI_AvatarIcon_Side_Ayaka@2x.png''"
    by (simp add: side_icon_def create_icon_def scaled_char_def scaled_key ICON_BASE_def)
  have c: "suffix ''@2x.png'' (''https://upload-os-bbs.mihoyo.com/game_record/genshin/character_side_icon/UI_AvatarIcon_Side_Ayaka'' @ ''@2x.png'')"
    by (rule suffixI) (rule refl)
  from a b c show ?thesis by simp
qed


end
